theory Spec2Isabelle
  imports Main "HOL-Library.Word" "HOL-Library.AList"
begin

section \<open>Data model: zap fields as the logger sees them\<close>

text \<open>
  \<^verbatim>\<open>zapcore.FieldType\<close> (zap v1.17.0), in declaration order.
\<close>

datatype FieldType =
    UnknownType | ArrayMarshalerType | ObjectMarshalerType | BinaryType | BoolType
  | ByteStringType | Complex128Type | Complex64Type | DurationType | Float64Type
  | Float32Type | Int64Type | Int32Type | Int16Type | Int8Type | StringType | TimeType
  | TimeFullType | Uint64Type | Uint32Type | Uint16Type | Uint8Type | UintptrType
  | ReflectType | NamespaceType | StringerType | ErrorType | SkipType

text \<open>
  \<^verbatim>\<open>zap.Field\<close> is the struct \<^verbatim>\<open>{Key string; Type FieldType; Integer int64; String string;
  Interface interface{}}\<close>. The \<^verbatim>\<open>Interface\<close> slot holds a dynamically typed Go value; the
  code of this package tells apart
  \<^item> the nil interface (\<open>INil\<close>),
  \<^item> a Go \<^verbatim>\<open>[]string\<close> (\<open>IStrings\<close>), the type that \<^verbatim>\<open>ecs.Tags\<close> stores,
  \<^item> zap's own \<^verbatim>\<open>stringArray\<close> (\<open>IStringArray\<close>), the type that \<^verbatim>\<open>zap.Strings\<close> stores,
  \<^item> a \<^verbatim>\<open>[]http.Header\<close> (\<open>IHeaders\<close>): a slice of references to header maps, each
    reference an address of the store below,
  \<^item> a \<^verbatim>\<open>json.RawMessage\<close> (\<open>IRawMessage\<close>), built by \<^verbatim>\<open>HTTPObject.AsField\<close>,
  \<^item> a \<^verbatim>\<open>*objects.Object\<close> (\<open>IObject\<close>), built by \<^verbatim>\<open>objects.AsObject\<close>,
  \<^item> any other non-nil value (\<open>IOther\<close>), which this package only ever formats with
    \<^verbatim>\<open>%v\<close>; it is represented by that rendering.
\<close>

datatype Field =
  Field (Key: string) (Type: FieldType) (Integer: "64 word") (String: string)
        (Interface: iface)
and iface =
    INil
  | IStrings "string list"
  | IStringArray "string list"
  | IHeaders "nat list"
  | IRawMessage string
  | IObject "Field list"
  | IOther string

text \<open>The zap constructors the package calls.\<close>

definition zap_String :: "string \<Rightarrow> string \<Rightarrow> Field" where
  "zap_String key val = Field key StringType 0 val INil"

definition zap_Strings :: "string \<Rightarrow> string list \<Rightarrow> Field" where
  "zap_Strings key ss = Field key ArrayMarshalerType 0 [] (IStringArray ss)"

definition zap_Object :: "string \<Rightarrow> iface \<Rightarrow> Field" where
  "zap_Object key val = Field key ObjectMarshalerType 0 [] val"

definition zap_Reflect :: "string \<Rightarrow> iface \<Rightarrow> Field" where
  "zap_Reflect key val = Field key ReflectType 0 [] val"

section \<open>String helpers of the Go library\<close>

text \<open>\<^verbatim>\<open>strings.HasPrefix(s, prefix)\<close>.\<close>

definition HasPrefix :: "string \<Rightarrow> string \<Rightarrow> bool" where
  "HasPrefix s p = (length p \<le> length s \<and> take (length p) s = p)"

text \<open>
  \<^verbatim>\<open>strings.Split(s, sep)\<close> for a one-byte separator: the pieces of \<open>s\<close> between
  the occurrences of the separator; the empty string gives one empty piece.
\<close>

fun Split :: "string \<Rightarrow> char \<Rightarrow> string list" where
  "Split [] sep = [[]]"
| "Split (c # cs) sep =
     (if c = sep then [] # Split cs sep
      else (case Split cs sep of
              [] \<Rightarrow> [[c]]
            | w # ws \<Rightarrow> (c # w) # ws))"

text \<open>\<^verbatim>\<open>strings.Join(elems, sep)\<close>.\<close>

fun Join :: "string list \<Rightarrow> string \<Rightarrow> string" where
  "Join [] sep = []"
| "Join [x] sep = x"
| "Join (x # y # ys) sep = x @ sep @ Join (y # ys) sep"

section \<open>ECS keys (ecs/ecs\_keys.go)\<close>

definition FieldLabels :: string where "FieldLabels = ''labels''"
definition FieldTags :: string where "FieldTags = ''tags''"
definition FieldLogger :: string where "FieldLogger = ''log.logger''"
definition FieldLogLevel :: string where "FieldLogLevel = ''log.level''"

definition FieldHTTPRequestBodyContent :: string where
  "FieldHTTPRequestBodyContent = ''http.request.body.content''"
definition FieldHTTPRequestMethod :: string where
  "FieldHTTPRequestMethod = ''http.request.method''"
definition FieldHTTPRequestBodyHeaders :: string where
  "FieldHTTPRequestBodyHeaders = ''http.request.body.headers''"
definition FieldHTTPRequestReferrer :: string where
  "FieldHTTPRequestReferrer = ''http.request.referrer''"
definition FieldHTTPResponseBodyContent :: string where
  "FieldHTTPResponseBodyContent = ''http.response.body.content''"
definition FieldHTTPResponseStatusCode :: string where
  "FieldHTTPResponseStatusCode = ''http.response.status_code''"
definition FieldHTTPResponseBodyReferrer :: string where
  "FieldHTTPResponseBodyReferrer = ''http.response.body.referrer''"

text \<open>\<^verbatim>\<open>ecsKeysMap\<close>, the lookup set behind \<^verbatim>\<open>IsECSFieldName\<close>.\<close>

definition ecsKeysMap :: "string list" where
  "ecsKeysMap =
    [FieldTags,
     FieldLogger, FieldLogLevel, ''application'', ''service'', ''environment'',
     ''lib_version'', ''lib_language'', ''pod_name'', ''node_name'',
     ''service.name'',
     ''error.message'', ''error.stack_trace'', ''error.type'',
     ''event.action'', ''event.category'', ''event.module'', ''event.type'',
     ''event.original'', ''event.outcome'',
     ''trace.id'',
     FieldHTTPRequestBodyContent, FieldHTTPRequestMethod, FieldHTTPRequestBodyHeaders,
     FieldHTTPRequestReferrer, FieldHTTPResponseBodyContent,
     FieldHTTPResponseStatusCode, FieldHTTPResponseBodyReferrer]"

definition IsECSFieldName :: "string \<Rightarrow> bool" where
  "IsECSFieldName fieldName = (fieldName \<in> set ecsKeysMap)"

definition LogPrefix :: string where "LogPrefix = ''log.''"
definition LogBaseLevelKey :: string where "LogBaseLevelKey = ''log''"
definition HTTPPrefix :: string where "HTTPPrefix = ''http.''"
definition HTTPBaseLevelKey :: string where "HTTPBaseLevelKey = ''http''"
definition EventPrefix :: string where "EventPrefix = ''event.''"
definition EventBaseLevelKey :: string where "EventBaseLevelKey = ''event''"
definition ErrorPrefix :: string where "ErrorPrefix = ''error.''"
definition ErrorBaseLevelKey :: string where "ErrorBaseLevelKey = ''error''"
definition TracePrefix :: string where "TracePrefix = ''trace.''"
definition TraceBaseLevelKey :: string where "TraceBaseLevelKey = ''trace''"

text \<open>\<^verbatim>\<open>ecs.Tags\<close>: a skip-typed field that carries the string list as it is.\<close>

definition Tags :: "string list \<Rightarrow> Field" where
  "Tags val = Field FieldTags SkipType 0 [] (IStrings val)"

section \<open>The field classifier (logger.go)\<close>

text \<open>
  Modelled from the spec: the type \<^verbatim>\<open>Level\<close>, its constants and its \<^verbatim>\<open>String\<close> method are
  declared in a file of the package that is not among the sources. The six constants are
  the ones logger.go names; \<open>Level_String\<close> is the "severity name" of the spec, taken to be
  zap's lower-case level name.
\<close>

datatype Level = DebugLevel | InfoLevel | WarnLevel | ErrorLevel | PanicLevel | FatalLevel

fun Level_String :: "Level \<Rightarrow> string" where
  "Level_String DebugLevel = ''debug''"
| "Level_String InfoLevel = ''info''"
| "Level_String WarnLevel = ''warn''"
| "Level_String ErrorLevel = ''error''"
| "Level_String PanicLevel = ''panic''"
| "Level_String FatalLevel = ''fatal''"

record fieldAccumulators =
  l :: Level
  labelsFieldsAccum :: "Field list"
  logFieldsAccum :: "Field list"
  httpFieldsAccum :: "Field list"
  eventFieldsAccum :: "Field list"
  errorFieldsAccum :: "Field list"
  traceFieldsAccum :: "Field list"

text \<open>
  \<^verbatim>\<open>newFieldAccumulators\<close>: six empty slices. The size argument only sets the capacity of
  the labels slice, which no value depends on.
\<close>

definition newFieldAccumulators :: "nat \<Rightarrow> Level \<Rightarrow> fieldAccumulators" where
  "newFieldAccumulators labelsSize lvl =
     \<lparr> l = lvl, labelsFieldsAccum = [], logFieldsAccum = [], httpFieldsAccum = [],
       eventFieldsAccum = [], errorFieldsAccum = [], traceFieldsAccum = [] \<rparr>"

text \<open>
  \<^verbatim>\<open>reduceKey\<close>: the key becomes the last token of \<^verbatim>\<open>strings.Split(field.Key, ".")\<close>.
  The token list is never empty, so the index \<^verbatim>\<open>len(keyTokens)-1\<close> is in range.
\<close>

definition reduceKey :: "Field \<Rightarrow> Field" where
  "reduceKey field =
     (let keyTokens = Split (Key field) (CHR ''.'')
      in Field (keyTokens ! (length keyTokens - 1)) (Type field) (Integer field)
               (String field) (Interface field))"

definition appendField :: "Field \<Rightarrow> fieldAccumulators \<Rightarrow> fieldAccumulators" where
  "appendField f a =
     (if HasPrefix (Key f) LogPrefix then
        a\<lparr>logFieldsAccum := logFieldsAccum a @ [reduceKey f]\<rparr>
      else if HasPrefix (Key f) HTTPPrefix then
        a\<lparr>httpFieldsAccum := httpFieldsAccum a @ [f]\<rparr>
      else if HasPrefix (Key f) EventPrefix then
        a\<lparr>eventFieldsAccum := eventFieldsAccum a @ [reduceKey f]\<rparr>
      else if HasPrefix (Key f) ErrorPrefix then
        a\<lparr>errorFieldsAccum := errorFieldsAccum a @ [reduceKey f]\<rparr>
      else if HasPrefix (Key f) TracePrefix then
        a\<lparr>traceFieldsAccum := traceFieldsAccum a @ [reduceKey f]\<rparr>
      else
        a\<lparr>labelsFieldsAccum := labelsFieldsAccum a @ [reduceKey f]\<rparr>)"

section \<open>Header redaction (ecs/fields\_ecs.go)\<close>

text \<open>
  An \<^verbatim>\<open>http.Header\<close> is a Go map from header names to value lists, and a map is a reference:
  the slice \<^verbatim>\<open>[]http.Header\<close> holds references to maps that the caller still owns. The store
  maps an address to the map that lives there. A map is an association list; its order
  stands for the order in which this run of \<^verbatim>\<open>range\<close> visits the keys (Go leaves that order
  open).
\<close>

type_synonym header = "(string \<times> string list) list"
type_synonym heap = "nat \<Rightarrow> header"

text \<open>\<^verbatim>\<open>header[key]\<close> as a read (a missing key reads as the nil slice) and as an assignment.\<close>

definition header_get :: "header \<Rightarrow> string \<Rightarrow> string list" where
  "header_get h key = (case map_of h key of None \<Rightarrow> [] | Some vs \<Rightarrow> vs)"

definition header_set :: "header \<Rightarrow> string \<Rightarrow> string list \<Rightarrow> header" where
  "header_set h key vs = AList.update key vs h"

text \<open>
  \<^verbatim>\<open>strings.ToLower\<close> on the bytes of an ASCII name: the letters A to Z are mapped to a to z,
  every other byte is kept. (Header names are ASCII tokens; the lower-casing of letters
  outside ASCII is not modelled.)
\<close>

definition lowerByte :: "char \<Rightarrow> char" where
  "lowerByte c =
     (if 65 \<le> (of_char c :: nat) \<and> (of_char c :: nat) \<le> 90
      then char_of ((of_char c :: nat) + 32) else c)"

definition ToLower :: "string \<Rightarrow> string" where
  "ToLower s = map lowerByte s"

definition secretEcsKeysMap :: "string list" where
  "secretEcsKeysMap =
     [''x-authorization'', ''authorization'', ''cookie'', ''x-san-iatx-user-pass'']"

definition secretPlaceholderValue :: string where
  "secretPlaceholderValue = ''SECRET''"

text \<open>
  The inner loop of \<^verbatim>\<open>SanitizeHeaders\<close>, over the keys of the map at address \<open>a\<close>: a secret
  name has its value list overwritten in the map itself, then the entry is rendered from
  the map as it now is.
\<close>

fun sanitizeHeader :: "nat \<Rightarrow> string list \<Rightarrow> heap \<times> string list \<Rightarrow> heap \<times> string list" where
  "sanitizeHeader a [] (st, plainHeaders) = (st, plainHeaders)"
| "sanitizeHeader a (key # keys) (st, plainHeaders) =
     (let st' = (if ToLower key \<in> set secretEcsKeysMap
                 then st(a := header_set (st a) key [secretPlaceholderValue])
                 else st)
      in sanitizeHeader a keys
           (st', plainHeaders @ [key @ ''='' @ Join (header_get (st' a) key) '','']))"

text \<open>The outer loop, over the slice of map references.\<close>

fun sanitizeLoop :: "nat list \<Rightarrow> heap \<times> string list \<Rightarrow> heap \<times> string list" where
  "sanitizeLoop [] s = s"
| "sanitizeLoop (a # as) (st, plainHeaders) =
     sanitizeLoop as (sanitizeHeader a (map fst (st a)) (st, plainHeaders))"

definition SanitizeHeaders :: "heap \<Rightarrow> nat list \<Rightarrow> heap \<times> string list" where
  "SanitizeHeaders st val = sanitizeLoop val (st, [])"


section \<open>The structured HTTP encoder (internal/objects)\<close>

text \<open>
  \<^verbatim>\<open>IsNilValue\<close> on the payload kinds of the model: only the nil interface is nil (slices are
  never reported nil by it, and \<open>IOther\<close> stands for values it does not take for nil).
\<close>

fun IsNilValue :: "iface \<Rightarrow> bool" where
  "IsNilValue INil = True"
| "IsNilValue v = False"

text \<open>
  \<^verbatim>\<open>fmt.Sprintf("%v", v)\<close>: the nil interface prints as \<^verbatim>\<open><nil>\<close>, a string slice as its
  elements between brackets separated by blanks, a byte slice as its bytes in decimal.
  The rendering of a \<^verbatim>\<open>*objects.Object\<close> contains pointer addresses and that of a header
  slice is never asked for (\<open>getValueAsString\<close> sanitizes it first): both are left open.
\<close>

definition byteDec :: "char \<Rightarrow> string" where
  "byteDec c =
     (let n = (of_char c :: nat); d = (\<lambda>k. char_of (48 + k :: nat))
      in if n < 10 then [d n]
         else if n < 100 then [d (n div 10), d (n mod 10)]
         else [d (n div 100), d (n div 10 mod 10), d (n mod 10)])"

fun Sprintv :: "iface \<Rightarrow> string" where
  "Sprintv INil = ''<nil>''"
| "Sprintv (IStrings xs) = ''['' @ Join xs '' '' @ '']''"
| "Sprintv (IStringArray xs) = ''['' @ Join xs '' '' @ '']''"
| "Sprintv (IRawMessage bs) = ''['' @ Join (map byteDec bs) '' '' @ '']''"
| "Sprintv (IOther s) = s"

definition getValueAsString :: "heap \<Rightarrow> Field \<Rightarrow> heap \<times> string" where
  "getValueAsString st field =
     (if String field \<noteq> [] then (st, String field)
      else if \<not> IsNilValue (Interface field) then
        (case Interface field of
           IHeaders headers \<Rightarrow>
             (case SanitizeHeaders st headers of
                (st', plainHeaders) \<Rightarrow> (st', Sprintv (IStrings plainHeaders)))
         | v \<Rightarrow> (st, Sprintv v))
      else (st, Sprintv (Interface field)))"

text \<open>
  The nested schema. A pointer field is an option: the nodes are allocated by the mapper
  and owned by the one \<^verbatim>\<open>HTTPObject\<close>, so no two references share a node.
\<close>

record HTTPBodyMarshalObject =
  BodyContent :: string
  Headers :: string
  StatusCode :: string

record HTTPRequestMarshalObject =
  RequestBody :: "HTTPBodyMarshalObject option"
  RequestMethod :: string
  RequestReferrer :: string

record HTTPResponseMarshalObject =
  ResponseBody :: "HTTPBodyMarshalObject option"
  ResponseReferrer :: string

record HTTPMarshalObject =
  Request :: "HTTPRequestMarshalObject option"
  Response :: "HTTPResponseMarshalObject option"

text \<open>The zero values \<^verbatim>\<open>&HTTPBodyMarshalObject{}\<close>, \<^verbatim>\<open>&HTTPRequestMarshalObject{}\<close>, ...\<close>

definition emptyBody :: HTTPBodyMarshalObject where
  "emptyBody = \<lparr> BodyContent = [], Headers = [], StatusCode = [] \<rparr>"

definition emptyRequest :: HTTPRequestMarshalObject where
  "emptyRequest = \<lparr> RequestBody = None, RequestMethod = [], RequestReferrer = [] \<rparr>"

definition emptyResponse :: HTTPResponseMarshalObject where
  "emptyResponse = \<lparr> ResponseBody = None, ResponseReferrer = [] \<rparr>"

definition emptyTarget :: HTTPMarshalObject where
  "emptyTarget = \<lparr> Request = None, Response = None \<rparr>"

text \<open>
  \<^verbatim>\<open>requestNilGuard\<close> and \<^verbatim>\<open>responseNilGuard\<close>: the request (response) node is allocated
  when it is nil, and then its body node is allocated when that is nil.
\<close>

definition requestNilGuard :: "HTTPMarshalObject \<Rightarrow> HTTPMarshalObject" where
  "requestNilGuard object =
     (let req = (case Request object of None \<Rightarrow> emptyRequest | Some r \<Rightarrow> r);
          req' = (if RequestBody req = None then req\<lparr>RequestBody := Some emptyBody\<rparr> else req)
      in object\<lparr>Request := Some req'\<rparr>)"

definition responseNilGuard :: "HTTPMarshalObject \<Rightarrow> HTTPMarshalObject" where
  "responseNilGuard object =
     (let resp = (case Response object of None \<Rightarrow> emptyResponse | Some r \<Rightarrow> r);
          resp' = (if ResponseBody resp = None then resp\<lparr>ResponseBody := Some emptyBody\<rparr> else resp)
      in object\<lparr>Response := Some resp'\<rparr>)"

text \<open>Assignments through the allocated nodes (the guard has run, so the nodes exist).\<close>

definition updRequest ::
  "(HTTPRequestMarshalObject \<Rightarrow> HTTPRequestMarshalObject) \<Rightarrow> HTTPMarshalObject \<Rightarrow> HTTPMarshalObject" where
  "updRequest g object = object\<lparr>Request := map_option g (Request object)\<rparr>"

definition updRequestBody ::
  "(HTTPBodyMarshalObject \<Rightarrow> HTTPBodyMarshalObject) \<Rightarrow> HTTPMarshalObject \<Rightarrow> HTTPMarshalObject" where
  "updRequestBody g object =
     updRequest (\<lambda>req. req\<lparr>RequestBody := map_option g (RequestBody req)\<rparr>) object"

definition updResponse ::
  "(HTTPResponseMarshalObject \<Rightarrow> HTTPResponseMarshalObject) \<Rightarrow> HTTPMarshalObject \<Rightarrow> HTTPMarshalObject" where
  "updResponse g object = object\<lparr>Response := map_option g (Response object)\<rparr>"

definition updResponseBody ::
  "(HTTPBodyMarshalObject \<Rightarrow> HTTPBodyMarshalObject) \<Rightarrow> HTTPMarshalObject \<Rightarrow> HTTPMarshalObject" where
  "updResponseBody g object =
     updResponse (\<lambda>resp. resp\<lparr>ResponseBody := map_option g (ResponseBody resp)\<rparr>) object"

definition HTTPECSMapper :: "heap \<Rightarrow> Field \<Rightarrow> HTTPMarshalObject \<Rightarrow> heap \<times> HTTPMarshalObject" where
  "HTTPECSMapper st field object =
     (if Key field = FieldHTTPRequestBodyContent then
        (case getValueAsString st field of (st', v) \<Rightarrow>
           (st', updRequestBody (\<lambda>b. b\<lparr>BodyContent := v\<rparr>) (requestNilGuard object)))
      else if Key field = FieldHTTPRequestBodyHeaders then
        (case getValueAsString st field of (st', v) \<Rightarrow>
           (st', updRequestBody (\<lambda>b. b\<lparr>Headers := v\<rparr>) (requestNilGuard object)))
      else if Key field = FieldHTTPRequestMethod then
        (case getValueAsString st field of (st', v) \<Rightarrow>
           (st', updRequest (\<lambda>r. r\<lparr>RequestMethod := v\<rparr>) (requestNilGuard object)))
      else if Key field = FieldHTTPRequestReferrer then
        (case getValueAsString st field of (st', v) \<Rightarrow>
           (st', updRequest (\<lambda>r. r\<lparr>RequestReferrer := v\<rparr>) (requestNilGuard object)))
      else if Key field = FieldHTTPResponseBodyContent then
        (case getValueAsString st field of (st', v) \<Rightarrow>
           (st', updResponseBody (\<lambda>b. b\<lparr>BodyContent := v\<rparr>) (responseNilGuard object)))
      else if Key field = FieldHTTPResponseStatusCode then
        (case getValueAsString st field of (st', v) \<Rightarrow>
           (st', updResponseBody (\<lambda>b. b\<lparr>StatusCode := v\<rparr>) (responseNilGuard object)))
      else if Key field = FieldHTTPResponseBodyReferrer then
        (case getValueAsString st field of (st', v) \<Rightarrow>
           (st', updResponse (\<lambda>r. r\<lparr>ResponseReferrer := v\<rparr>) (responseNilGuard object)))
      else (st, object))"

text \<open>
  \<^verbatim>\<open>json.Marshal\<close> (json-iterator, \<^verbatim>\<open>ConfigFastest\<close>) on the nested schema. A string is written
  between double quotes, with the double quote and the backslash escaped by a backslash,
  newline, carriage return and tab as \<^verbatim>\<open>\n\<close>, \<^verbatim>\<open>\r\<close>, \<^verbatim>\<open>\t\<close>, any other byte below 0x20 as
  \<^verbatim>\<open>\u00XX\<close>, and every other byte as it is (this configuration does not escape HTML).
\<close>

definition hexDigit :: "nat \<Rightarrow> char" where
  "hexDigit n = ''0123456789abcdef'' ! (n mod 16)"

definition escapeByte :: "char \<Rightarrow> string" where
  "escapeByte c =
     (if c = CHR 0x22 \<or> c = CHR 0x5C then [CHR 0x5C, c]
      else if c = CHR 0x0A then [CHR 0x5C, CHR ''n'']
      else if c = CHR 0x0D then [CHR 0x5C, CHR ''r'']
      else if c = CHR 0x09 then [CHR 0x5C, CHR ''t'']
      else if (of_char c :: nat) < 32 then
        [CHR 0x5C, CHR ''u'', CHR ''0'', CHR ''0'',
         hexDigit ((of_char c :: nat) div 16), hexDigit ((of_char c :: nat) mod 16)]
      else [c])"

definition WriteString :: "string \<Rightarrow> string" where
  "WriteString s = [CHR 0x22] @ concat (map escapeByte s) @ [CHR 0x22]"

text \<open>
  A struct is written as its members between braces, separated by commas, in the order
  of the struct's fields. With \<^verbatim>\<open>omitempty\<close> a string member is left out when the string
  is empty and a pointer member is left out when the pointer is nil (an allocated node
  is written even when all of its own members are left out).
\<close>

definition member :: "string \<Rightarrow> string \<Rightarrow> string" where
  "member name v = [CHR 0x22] @ name @ [CHR 0x22] @ '':'' @ v"

definition stringMember :: "string \<Rightarrow> string \<Rightarrow> string list" where
  "stringMember name v = (if v = [] then [] else [member name (WriteString v)])"

definition struct :: "string list \<Rightarrow> string" where
  "struct members = ''{'' @ Join members '','' @ ''}''"

definition marshalBody :: "HTTPBodyMarshalObject \<Rightarrow> string" where
  "marshalBody b =
     struct (stringMember ''content'' (BodyContent b)
           @ stringMember ''headers'' (Headers b)
           @ stringMember ''status_code'' (StatusCode b))"

definition bodyMember :: "HTTPBodyMarshalObject option \<Rightarrow> string list" where
  "bodyMember p = (case p of None \<Rightarrow> [] | Some b \<Rightarrow> [member ''body'' (marshalBody b)])"

definition marshalRequest :: "HTTPRequestMarshalObject \<Rightarrow> string" where
  "marshalRequest r =
     struct (bodyMember (RequestBody r)
           @ stringMember ''method'' (RequestMethod r)
           @ stringMember ''referrer'' (RequestReferrer r))"

definition marshalResponse :: "HTTPResponseMarshalObject \<Rightarrow> string" where
  "marshalResponse r =
     struct (bodyMember (ResponseBody r)
           @ stringMember ''referrer'' (ResponseReferrer r))"

text \<open>
  The result is the pair \<^verbatim>\<open>(data, err)\<close> as a sum. No value of this schema makes the
  encoder fail, so the result is always the data.
\<close>

definition json_Marshal :: "HTTPMarshalObject \<Rightarrow> string + string" where
  "json_Marshal object =
     Inr (struct
       ((case Request object of None \<Rightarrow> []
         | Some r \<Rightarrow> [member ''request'' (marshalRequest r)])
      @ (case Response object of None \<Rightarrow> []
         | Some r \<Rightarrow> [member ''response'' (marshalResponse r)])))"

text \<open>
  \<^verbatim>\<open>HTTPObject\<close>, built by \<^verbatim>\<open>NestedObject\<close> with the zero target. \<^verbatim>\<open>MarshalJSON\<close> runs the mapper
  over the fields, in order, and marshals the target; \<^verbatim>\<open>AsField\<close> wraps the bytes as a
  \<^verbatim>\<open>json.RawMessage\<close> in \<^verbatim>\<open>zap.Any\<close>, which has no case for that type and so builds a
  reflect-typed field. An encoder error is replaced by its message.
\<close>

record HTTPObject =
  fields' :: "Field list"
  target :: HTTPMarshalObject
  mapper :: "heap \<Rightarrow> Field \<Rightarrow> HTTPMarshalObject \<Rightarrow> heap \<times> HTTPMarshalObject"
  baseKey :: string

definition NestedObject ::
  "string \<Rightarrow> (heap \<Rightarrow> Field \<Rightarrow> HTTPMarshalObject \<Rightarrow> heap \<times> HTTPMarshalObject)
     \<Rightarrow> Field list \<Rightarrow> HTTPObject" where
  "NestedObject k m fs = \<lparr> fields' = fs, target = emptyTarget, mapper = m, baseKey = k \<rparr>"

fun applyMapper ::
  "(heap \<Rightarrow> Field \<Rightarrow> HTTPMarshalObject \<Rightarrow> heap \<times> HTTPMarshalObject)
     \<Rightarrow> Field list \<Rightarrow> heap \<times> HTTPMarshalObject \<Rightarrow> heap \<times> HTTPMarshalObject" where
  "applyMapper m [] s = s"
| "applyMapper m (field # rest) (st, object) = applyMapper m rest (m st field object)"

definition MarshalJSON :: "heap \<Rightarrow> HTTPObject \<Rightarrow> heap \<times> (string + string)" where
  "MarshalJSON st f =
     (case applyMapper (mapper f) (fields' f) (st, target f) of
        (st', object) \<Rightarrow> (st', json_Marshal object))"

definition AsField :: "heap \<Rightarrow> HTTPObject \<Rightarrow> heap \<times> Field" where
  "AsField st f =
     (case MarshalJSON st f of
        (st', Inl err) \<Rightarrow> (st', zap_Reflect (baseKey f) (IRawMessage err))
      | (st', Inr data) \<Rightarrow> (st', zap_Reflect (baseKey f) (IRawMessage data)))"

section \<open>The log record assembler (logger.go)\<close>

text \<open>\<^verbatim>\<open>objects.AsObject(fields...)\<close>: the flat bucket, marshalled later by the sink.\<close>

definition AsObject :: "Field list \<Rightarrow> iface" where
  "AsObject fs = IObject fs"

text \<open>
  \<^verbatim>\<open>emitLogFields\<close>: the logger identity and the level name are appended to the log bucket,
  then the six bucket fields are built, in the order of the \<^verbatim>\<open>append\<close> call. Encoding the
  HTTP bucket may sanitize header maps, so the store is threaded through.
\<close>

definition emitLogFields :: "fieldAccumulators \<Rightarrow> Field \<Rightarrow> heap \<Rightarrow> heap \<times> Field list" where
  "emitLogFields a baseLoggerField st =
     (let a' = a\<lparr>logFieldsAccum := logFieldsAccum a @
                  [reduceKey baseLoggerField,
                   reduceKey (zap_String FieldLogLevel (Level_String (l a)))]\<rparr>
      in case AsField st (NestedObject HTTPBaseLevelKey HTTPECSMapper (httpFieldsAccum a')) of
           (st', httpField) \<Rightarrow>
             (st',
              [zap_Object LogBaseLevelKey (AsObject (logFieldsAccum a')),
               httpField,
               zap_Object EventBaseLevelKey (AsObject (eventFieldsAccum a')),
               zap_Object ErrorBaseLevelKey (AsObject (errorFieldsAccum a')),
               zap_Object TraceBaseLevelKey (AsObject (traceFieldsAccum a')),
               zap_Object FieldLabels (AsObject (labelsFieldsAccum a'))]))"

record zapECSLogger =
  baseLoggerField :: Field
  baseTags :: "string list"
  baseLabels :: "Field list"

text \<open>
  A failed type assertion \<^verbatim>\<open>x.(T)\<close> in its one-result form panics; the panic is not
  recovered anywhere in the package, so it leaves the log call.
\<close>

datatype panic = InterfaceConversion

text \<open>
  The loop of \<^verbatim>\<open>encodeFields\<close>. Its state is the set of processed keys, the accumulators
  and the entry tags.
\<close>

fun classify ::
  "Field list \<Rightarrow> string set \<times> fieldAccumulators \<times> string list
     \<Rightarrow> panic + (string set \<times> fieldAccumulators \<times> string list)" where
  "classify [] s = Inr s"
| "classify (field # rest) (processedFields, accums, entryTags) =
     (if Key field \<in> processedFields then
        classify rest (processedFields, accums, entryTags)
      else
        (let processedFields' = insert (Key field) processedFields in
         if IsECSFieldName (Key field) then
           (if Key field = FieldTags then
              (if Interface field \<noteq> INil then
                 (case Interface field of
                    IStrings tags \<Rightarrow> classify rest (processedFields', accums, entryTags @ tags)
                  | _ \<Rightarrow> Inl InterfaceConversion)
               else classify rest (processedFields', accums, entryTags))
            else classify rest (processedFields', appendField field accums, entryTags))
         else classify rest (processedFields', appendField field accums, entryTags)))"

definition encodeFields ::
  "zapECSLogger \<Rightarrow> heap \<Rightarrow> Field list \<Rightarrow> Level \<Rightarrow> panic + (heap \<times> Field list)" where
  "encodeFields lg st fs lvl =
     (case classify fs ({}, newFieldAccumulators (length (baseLabels lg)) lvl, baseTags lg) of
        Inl p \<Rightarrow> Inl p
      | Inr (processedFields, accums, entryTags) \<Rightarrow>
          (let logFields = (if length entryTags > 0 then [zap_Strings FieldTags entryTags] else [])
           in case emitLogFields accums (baseLoggerField lg) st of
                (st', emitted) \<Rightarrow> Inr (st', logFields @ baseLabels lg @ emitted)))"

section \<open>Notions of the specification\<close>

text \<open>
  The definitions of this section follow the words of the specification; the theorems
  below compare the code with them.
\<close>

text \<open>"The substring after the final dot" of a key (the whole key when it has no dot).\<close>

definition afterFinalDot :: "string \<Rightarrow> string" where
  "afterFinalDot k = rev (takeWhile (\<lambda>c. c \<noteq> CHR ''.'') (rev k))"

text \<open>A field with its key replaced and everything else kept.\<close>

definition withKey :: "string \<Rightarrow> Field \<Rightarrow> Field" where
  "withKey k f = Field k (Type f) (Integer f) (String f) (Interface f)"

text \<open>
  The routing table: "an ordered list of (prefix, bucket) pairs checked in a fixed
  priority order (log, http, event, error, trace)", the first match winning.
\<close>

datatype bucket = LabelsBucket | LogBucket | HTTPBucket | EventBucket | ErrorBucket | TraceBucket

definition prefixTable :: "(string \<times> bucket) list" where
  "prefixTable =
     [(LogPrefix, LogBucket), (HTTPPrefix, HTTPBucket), (EventPrefix, EventBucket),
      (ErrorPrefix, ErrorBucket), (TracePrefix, TraceBucket)]"

fun firstMatch :: "string \<Rightarrow> (string \<times> bucket) list \<Rightarrow> bucket option" where
  "firstMatch k [] = None"
| "firstMatch k ((p, b) # rest) = (if HasPrefix k p then Some b else firstMatch k rest)"

fun bucketFields :: "bucket \<Rightarrow> fieldAccumulators \<Rightarrow> Field list" where
  "bucketFields LabelsBucket a = labelsFieldsAccum a"
| "bucketFields LogBucket a = logFieldsAccum a"
| "bucketFields HTTPBucket a = httpFieldsAccum a"
| "bucketFields EventBucket a = eventFieldsAccum a"
| "bucketFields ErrorBucket a = errorFieldsAccum a"
| "bucketFields TraceBucket a = traceFieldsAccum a"

text \<open>
  Deduplication by key, first occurrence winning: the fields of a list whose key is
  neither in \<open>seen\<close> nor carried by an earlier field of the list.
\<close>

fun firstByKey :: "string set \<Rightarrow> Field list \<Rightarrow> Field list" where
  "firstByKey seen [] = []"
| "firstByKey seen (f # fs) =
     (if Key f \<in> seen then firstByKey seen fs
      else f # firstByKey (insert (Key f) seen) fs)"



subsection \<open>Concrete inputs\<close>

text \<open>A store with no header maps.\<close>

definition emptyHeap :: heap where
  "emptyHeap = (\<lambda>a. [])"


text \<open>A logger with one base tag and one base label.\<close>

definition exampleLogger :: zapECSLogger where
  "exampleLogger =
     \<lparr> baseLoggerField = zap_String FieldLogger ''ecs'',
       baseTags = [''prod''],
       baseLabels = [zap_String ''application'' ''app''] \<rparr>"

text \<open>
  The document that the code builds from the single field \<^verbatim>\<open>http.request.method = "POST"\<close>,
  and the document that the specification expects.
\<close>

definition requestMethodDocument :: string where
  \<open>requestMethodDocument = ''{"request":{"body":{},"method":"POST"}}''\<close>

definition claimedMethodDocument :: string where
  \<open>claimedMethodDocument = ''{"request":{"method":"POST"}}''\<close>

section \<open>Lemmas\<close>

subsection \<open>Key reduction\<close>

lemma Split_nonempty: "Split k sep \<noteq> []"
  by (induction k) (auto split: list.splits)

lemma Split_no_sep: "sep \<notin> set k \<Longrightarrow> Split k sep = [k]"
  by (induction k) auto

lemma Split_sep_length: "sep \<in> set k \<Longrightarrow> length (Split k sep) \<ge> 2"
  by (induction k) (auto split: list.splits simp: Split_nonempty Suc_le_eq)

lemma last_Split: "last (Split k sep) = rev (takeWhile (\<lambda>c. c \<noteq> sep) (rev k))"
proof (induction k)
  case Nil
  then show ?case by simp
next
  case (Cons x xs)
  show ?case
  proof (cases "sep \<in> set xs")
    case True
    then have len: "length (Split xs sep) \<ge> 2" by (rule Split_sep_length)
    then obtain w v ws where sp: "Split xs sep = w # v # ws"
      by (cases "Split xs sep"; cases "tl (Split xs sep)") auto
    have tw: "takeWhile (\<lambda>c. c \<noteq> sep) (rev xs @ [x]) = takeWhile (\<lambda>c. c \<noteq> sep) (rev xs)"
      using True by (auto simp: takeWhile_append)
    show ?thesis using Cons sp tw by auto
  next
    case False
    then have sp: "Split xs sep = [xs]" by (rule Split_no_sep)
    have tw: "takeWhile (\<lambda>c. c \<noteq> sep) (rev xs @ [x]) =
                rev xs @ takeWhile (\<lambda>c. c \<noteq> sep) [x]"
      using False by (intro takeWhile_append2) auto
    show ?thesis using sp by (simp add: tw)
  qed
qed

lemma reduceKey_withKey: "reduceKey f = withKey (afterFinalDot (Key f)) f"
  by (simp add: reduceKey_def withKey_def afterFinalDot_def Let_def last_Split [symmetric]
      last_conv_nth Split_nonempty)

lemma newFieldAccumulators_size: "newFieldAccumulators n lvl = newFieldAccumulators 0 lvl"
  by (simp add: newFieldAccumulators_def)

lemma IsECSFieldName_tags: "IsECSFieldName FieldTags"
  by (simp add: IsECSFieldName_def ecsKeysMap_def)

subsection \<open>Lemmas on the classification loop\<close>

lemma classify_append:
  "classify (xs @ ys) s = (case classify xs s of Inl p \<Rightarrow> Inl p | Inr s' \<Rightarrow> classify ys s')"
proof (induction xs s rule: classify.induct)
  case (1 s)
  then show ?case by simp
next
  case (2 field rest processedFields accums entryTags)
  then show ?case
    by (simp add: Let_def split: iface.splits)
qed



lemma classify_firstByKey:
  "classify fs (P, a, t) = classify (firstByKey P fs) (P, a, t)"
proof (induction fs arbitrary: P a t)
  case Nil
  then show ?case by simp
next
  case (Cons f fs)
  show ?case
  proof (cases "Key f \<in> P")
    case True
    then show ?thesis using Cons by simp
  next
    case False
    then show ?thesis using Cons [of "insert (Key f) P"]
      by (auto simp: Let_def split: iface.splits)
  qed
qed

text \<open>
  Only the tag field can make the loop panic, and only the tag field changes the entry
  tags: a run over fields that are not the tag field, or whose tag fields are
  duplicates already, ends normally with the tags it started from.
\<close>

lemma classify_no_tags:
  "FieldTags \<in> P \<or> FieldTags \<notin> Key ` set xs \<Longrightarrow>
     \<exists>a'. classify xs (P, a, t) = Inr (P \<union> Key ` set xs, a', t)"
proof (induction xs arbitrary: P a)
  case Nil
  then show ?case by simp
next
  case (Cons f fs)
  show ?case
  proof (cases "Key f \<in> P")
    case True
    then have "P \<union> Key ` set (f # fs) = P \<union> Key ` set fs" by auto
    moreover have "FieldTags \<in> P \<or> FieldTags \<notin> Key ` set fs" using Cons.prems by auto
    ultimately show ?thesis using True Cons.IH [of P a] by simp
  next
    case False
    then have nt: "Key f \<noteq> FieldTags" using Cons.prems by auto
    have eq: "insert (Key f) P \<union> Key ` set fs = P \<union> Key ` set (f # fs)" by auto
    have pre: "FieldTags \<in> insert (Key f) P \<or> FieldTags \<notin> Key ` set fs"
      using Cons.prems by auto
    from Cons.IH [OF pre, of "appendField f a"] obtain a' where
      "classify fs (insert (Key f) P, appendField f a, t) =
         Inr (insert (Key f) P \<union> Key ` set fs, a', t)"
      by blast
    then show ?thesis using False nt eq by (simp add: Let_def)
  qed
qed

lemma emitLogFields_shape:
  "\<exists>st' doc. emitLogFields a blf st =
     (st', [zap_Object ''log'' (IObject (logFieldsAccum a @
              [reduceKey blf, reduceKey (zap_String FieldLogLevel (Level_String (l a)))])),
            zap_Reflect ''http'' (IRawMessage doc),
            zap_Object ''event'' (IObject (eventFieldsAccum a)),
            zap_Object ''error'' (IObject (errorFieldsAccum a)),
            zap_Object ''trace'' (IObject (traceFieldsAccum a)),
            zap_Object ''labels'' (IObject (labelsFieldsAccum a))])"
  by (auto simp: emitLogFields_def AsField_def Let_def NestedObject_def AsObject_def
      LogBaseLevelKey_def HTTPBaseLevelKey_def EventBaseLevelKey_def ErrorBaseLevelKey_def
      TraceBaseLevelKey_def FieldLabels_def split: prod.splits sum.splits)

subsection \<open>Evaluation on the concrete inputs\<close>

lemmas key_defs =
  FieldLabels_def FieldTags_def FieldLogger_def FieldLogLevel_def
  FieldHTTPRequestBodyContent_def FieldHTTPRequestMethod_def FieldHTTPRequestBodyHeaders_def
  FieldHTTPRequestReferrer_def FieldHTTPResponseBodyContent_def FieldHTTPResponseStatusCode_def
  FieldHTTPResponseBodyReferrer_def LogPrefix_def LogBaseLevelKey_def HTTPPrefix_def
  HTTPBaseLevelKey_def EventPrefix_def EventBaseLevelKey_def ErrorPrefix_def
  ErrorBaseLevelKey_def TracePrefix_def TraceBaseLevelKey_def

lemmas classifier_defs =
  encodeFields_def emitLogFields_def appendField_def reduceKey_def newFieldAccumulators_def
  IsECSFieldName_def ecsKeysMap_def HasPrefix_def AsObject_def zap_String_def zap_Strings_def
  zap_Object_def zap_Reflect_def Let_def

lemmas http_defs =
  AsField_def MarshalJSON_def NestedObject_def HTTPECSMapper_def getValueAsString_def
  requestNilGuard_def responseNilGuard_def updRequest_def updRequestBody_def updResponse_def
  updResponseBody_def emptyTarget_def emptyRequest_def emptyResponse_def emptyBody_def
  json_Marshal_def marshalRequest_def marshalResponse_def marshalBody_def bodyMember_def
  stringMember_def member_def struct_def WriteString_def escapeByte_def


lemma example_duplicate_label:
  "encodeFields exampleLogger emptyHeap [zap_String ''application'' ''mine''] InfoLevel =
     Inr (emptyHeap,
       [zap_Strings ''tags'' [''prod''],
        zap_String ''application'' ''app'',
        zap_Object ''log'' (IObject [zap_String ''logger'' ''ecs'', zap_String ''level'' ''info'']),
        zap_Reflect ''http'' (IRawMessage ''{}''),
        zap_Object ''event'' (IObject []),
        zap_Object ''error'' (IObject []),
        zap_Object ''trace'' (IObject []),
        zap_Object ''labels'' (IObject [zap_String ''application'' ''mine''])])"
  by (simp add: exampleLogger_def classifier_defs http_defs key_defs)

lemma example_request_method:
  "encodeFields exampleLogger emptyHeap [zap_String ''http.request.method'' ''POST''] InfoLevel =
     Inr (emptyHeap,
       [zap_Strings ''tags'' [''prod''],
        zap_String ''application'' ''app'',
        zap_Object ''log'' (IObject [zap_String ''logger'' ''ecs'', zap_String ''level'' ''info'']),
        zap_Reflect ''http'' (IRawMessage requestMethodDocument),
        zap_Object ''event'' (IObject []),
        zap_Object ''error'' (IObject []),
        zap_Object ''trace'' (IObject []),
        zap_Object ''labels'' (IObject [])])"
  by (simp add: exampleLogger_def classifier_defs http_defs key_defs requestMethodDocument_def)


lemma documents_differ: "requestMethodDocument \<noteq> claimedMethodDocument"
  by (simp add: requestMethodDocument_def claimedMethodDocument_def)



subsection \<open>Lemmas on header sanitization\<close>






section \<open>The claims\<close>

subsection \<open>C1: a tag field whose payload is not a string list\<close>

text \<open>
  C1 says that a field with key \<^verbatim>\<open>tags\<close> and a non-nil payload that is not a string list is
  skipped and that the log call completes. The code guards the nil payload only: for any
  other payload the one-result type assertion \<^verbatim>\<open>field.Interface.([]string)\<close> panics, and
  \<^verbatim>\<open>encodeFields\<close> does not return. This theorem evaluates the code: when the first field
  with key \<^verbatim>\<open>tags\<close> carries a non-nil payload that is not a \<^verbatim>\<open>[]string\<close>, the call ends in the
  panic, whatever the other fields are.
\<close>

theorem C1_tag_type_mismatch_panics:
  assumes "FieldTags \<notin> Key ` set xs" and "Key f = FieldTags"
    and "Interface f \<noteq> INil" and "\<forall>ts. Interface f \<noteq> IStrings ts"
  shows "encodeFields lg st (xs @ f # ys) lvl = Inl InterfaceConversion"
proof -
  let ?s0 = "({}, newFieldAccumulators (length (baseLabels lg)) lvl, baseTags lg)"
  obtain a1 where c1: "classify xs ?s0 = Inr ({} \<union> Key ` set xs, a1, baseTags lg)"
    using classify_no_tags [of "{}" xs "newFieldAccumulators (length (baseLabels lg)) lvl"
        "baseTags lg"] assms(1)
    by blast
  have c2: "classify (f # ys) ({} \<union> Key ` set xs, a1, baseTags lg) = Inl InterfaceConversion"
    using assms by (simp add: IsECSFieldName_tags Let_def split: iface.splits)
  show ?thesis using c1 c2 by (simp add: encodeFields_def classify_append)
qed

text \<open>
  The failing input of C1: the tag field built with \<^verbatim>\<open>zap.Strings("tags", ...)\<close>, whose payload
  is zap's \<^verbatim>\<open>stringArray\<close>, after an ordinary field.
\<close>

theorem C1_tag_type_mismatch_panics_witness:
  "FieldTags \<notin> Key ` set [zap_String ''foo'' ''a'']
   \<and> Key (zap_Strings ''tags'' [''a'', ''b'']) = FieldTags
   \<and> Interface (zap_Strings ''tags'' [''a'', ''b'']) \<noteq> INil
   \<and> (\<forall>ts. Interface (zap_Strings ''tags'' [''a'', ''b'']) \<noteq> IStrings ts)
   \<and> encodeFields exampleLogger emptyHeap
        ([zap_String ''foo'' ''a''] @ zap_Strings ''tags'' [''a'', ''b''] # []) InfoLevel
       = Inl InterfaceConversion"
proof -
  have h1: "FieldTags \<notin> Key ` set [zap_String ''foo'' ''a'']"
    by (simp add: FieldTags_def zap_String_def)
  have h2: "Key (zap_Strings ''tags'' [''a'', ''b'']) = FieldTags"
    by (simp add: FieldTags_def zap_Strings_def)
  have h3: "Interface (zap_Strings ''tags'' [''a'', ''b'']) \<noteq> INil"
    by (simp add: zap_Strings_def)
  have h4: "\<forall>ts. Interface (zap_Strings ''tags'' [''a'', ''b'']) \<noteq> IStrings ts"
    by (simp add: zap_Strings_def)
  show ?thesis
    using h1 h2 h3 h4
      C1_tag_type_mismatch_panics [OF h1 h2 h3 h4, of exampleLogger emptyHeap "[]" InfoLevel]
    by simp
qed

subsection \<open>C2: what is deduplicated\<close>

text \<open>
  C2, as the specification states it: call fields and base labels are deduplicated
  jointly, so a base label whose key a call field already carries is discarded. The code
  does not do that: with the base label \<^verbatim>\<open>application = app\<close> and the call field
  \<^verbatim>\<open>application = mine\<close>, the base label is not among the survivors of the joint
  deduplication, and still the output holds it, next to the call field in the labels
  bucket.
\<close>

theorem C2_joint_deduplication_counterexample:
  "zap_String ''application'' ''app''
     \<notin> set (firstByKey {} ([zap_String ''application'' ''mine''] @ baseLabels exampleLogger))
   \<and> encodeFields exampleLogger emptyHeap [zap_String ''application'' ''mine''] InfoLevel =
     Inr (emptyHeap,
       [zap_Strings ''tags'' [''prod''],
        zap_String ''application'' ''app'',
        zap_Object ''log'' (IObject [zap_String ''logger'' ''ecs'', zap_String ''level'' ''info'']),
        zap_Reflect ''http'' (IRawMessage ''{}''),
        zap_Object ''event'' (IObject []),
        zap_Object ''error'' (IObject []),
        zap_Object ''trace'' (IObject []),
        zap_Object ''labels'' (IObject [zap_String ''application'' ''mine''])])"
proof -
  have "zap_String ''application'' ''app''
     \<notin> set (firstByKey {} ([zap_String ''application'' ''mine''] @ baseLabels exampleLogger))"
    by (simp add: exampleLogger_def zap_String_def)
  then show ?thesis using example_duplicate_label by simp
qed

text \<open>
  C2, amended: only the call fields are deduplicated by key, in call order (the output
  of a call is the output of the call with the first occurrence of each key only). The
  base labels take no part in it: the output is a fixed list before and a fixed list
  after the base labels, whatever the base labels are, so that every base label is
  emitted as it is and none of them suppresses a call field.
\<close>

theorem C2_only_call_fields_deduplicated:
  "encodeFields lg st fs lvl = encodeFields lg st (firstByKey {} fs) lvl
   \<and> (\<forall>st' out. encodeFields lg st fs lvl = Inr (st', out) \<longrightarrow>
        (\<exists>pre post. \<forall>bl.
           encodeFields (lg\<lparr>baseLabels := bl\<rparr>) st fs lvl = Inr (st', pre @ bl @ post)))"
proof -
  have d: "encodeFields lg st fs lvl = encodeFields lg st (firstByKey {} fs) lvl"
    using classify_firstByKey [of fs "{}"] by (simp add: encodeFields_def)
  have v: "\<exists>pre post. \<forall>bl.
             encodeFields (lg\<lparr>baseLabels := bl\<rparr>) st fs lvl = Inr (st', pre @ bl @ post)"
    if r: "encodeFields lg st fs lvl = Inr (st', out)" for st' out
  proof -
    obtain P a t where
      c: "classify fs ({}, newFieldAccumulators (length (baseLabels lg)) lvl, baseTags lg) =
            Inr (P, a, t)"
      using r by (auto simp: encodeFields_def split: sum.splits)
    obtain st1 emitted where e: "emitLogFields a (baseLoggerField lg) st = (st1, emitted)"
      by (cases "emitLogFields a (baseLoggerField lg) st")
    have s: "st1 = st'" using r c e by (simp add: encodeFields_def Let_def)
    have c': "classify fs ({}, newFieldAccumulators (length bl) lvl, baseTags lg) = Inr (P, a, t)"
      for bl :: "Field list"
      using c newFieldAccumulators_size [of "length bl" lvl]
        newFieldAccumulators_size [of "length (baseLabels lg)" lvl]
      by simp
    have "\<forall>bl. encodeFields (lg\<lparr>baseLabels := bl\<rparr>) st fs lvl =
            Inr (st', (if length t > 0 then [zap_Strings FieldTags t] else []) @ bl @ emitted)"
      using c' e s by (simp add: encodeFields_def Let_def)
    then show ?thesis by blast
  qed
  show ?thesis using d v by blast
qed

theorem C2_only_call_fields_deduplicated_witness:
  "encodeFields exampleLogger emptyHeap
       [zap_String ''application'' ''mine'', zap_String ''application'' ''other''] InfoLevel
     = encodeFields exampleLogger emptyHeap [zap_String ''application'' ''mine''] InfoLevel
   \<and> encodeFields exampleLogger emptyHeap
       [zap_String ''application'' ''mine'', zap_String ''application'' ''other''] InfoLevel =
     Inr (emptyHeap,
       [zap_Strings ''tags'' [''prod''],
        zap_String ''application'' ''app'',
        zap_Object ''log'' (IObject [zap_String ''logger'' ''ecs'', zap_String ''level'' ''info'']),
        zap_Reflect ''http'' (IRawMessage ''{}''),
        zap_Object ''event'' (IObject []),
        zap_Object ''error'' (IObject []),
        zap_Object ''trace'' (IObject []),
        zap_Object ''labels'' (IObject [zap_String ''application'' ''mine''])])
   \<and> (\<exists>pre post. \<forall>bl.
        encodeFields (exampleLogger\<lparr>baseLabels := bl\<rparr>) emptyHeap
          [zap_String ''application'' ''mine'', zap_String ''application'' ''other''] InfoLevel
        = Inr (emptyHeap, pre @ bl @ post))"
proof -
  let ?fs = "[zap_String ''application'' ''mine'', zap_String ''application'' ''other'']"
  note r = C2_only_call_fields_deduplicated [of exampleLogger emptyHeap ?fs InfoLevel]
  have f: "firstByKey {} ?fs = [zap_String ''application'' ''mine'']"
    by (simp add: zap_String_def)
  have a: "encodeFields exampleLogger emptyHeap ?fs InfoLevel
     = encodeFields exampleLogger emptyHeap [zap_String ''application'' ''mine''] InfoLevel"
    using conjunct1 [OF r] f by simp
  have b: "encodeFields exampleLogger emptyHeap ?fs InfoLevel =
     Inr (emptyHeap,
       [zap_Strings ''tags'' [''prod''],
        zap_String ''application'' ''app'',
        zap_Object ''log'' (IObject [zap_String ''logger'' ''ecs'', zap_String ''level'' ''info'']),
        zap_Reflect ''http'' (IRawMessage ''{}''),
        zap_Object ''event'' (IObject []),
        zap_Object ''error'' (IObject []),
        zap_Object ''trace'' (IObject []),
        zap_Object ''labels'' (IObject [zap_String ''application'' ''mine''])])"
    using a example_duplicate_label by simp
  have c: "\<exists>pre post. \<forall>bl.
        encodeFields (exampleLogger\<lparr>baseLabels := bl\<rparr>) emptyHeap ?fs InfoLevel
        = Inr (emptyHeap, pre @ bl @ post)"
    using conjunct2 [OF r, rule_format, OF b] .
  show ?thesis using a b c by blast
qed

subsection \<open>C3: the order of the final field list\<close>




subsection \<open>C4: the HTTP document for a lone request method\<close>

text \<open>
  C4, as the specification states it: an HTTP bucket that holds only
  \<^verbatim>\<open>http.request.method = "POST"\<close> is serialized as \<^verbatim>\<open>{"request":{"method":"POST"}}\<close>, with no
  \<^verbatim>\<open>body\<close> key under \<^verbatim>\<open>request\<close>. The code does not do that: \<^verbatim>\<open>requestNilGuard\<close> allocates the body
  node together with the request node, and an allocated node is written, so the document
  is \<^verbatim>\<open>{"request":{"body":{},"method":"POST"}}\<close>.
\<close>

theorem C4_no_body_key_counterexample:
  "encodeFields exampleLogger emptyHeap [zap_String ''http.request.method'' ''POST''] InfoLevel =
     Inr (emptyHeap,
       [zap_Strings ''tags'' [''prod''],
        zap_String ''application'' ''app'',
        zap_Object ''log'' (IObject [zap_String ''logger'' ''ecs'', zap_String ''level'' ''info'']),
        zap_Reflect ''http'' (IRawMessage requestMethodDocument),
        zap_Object ''event'' (IObject []),
        zap_Object ''error'' (IObject []),
        zap_Object ''trace'' (IObject []),
        zap_Object ''labels'' (IObject [])])
   \<and> requestMethodDocument \<noteq> claimedMethodDocument"
  using example_request_method documents_differ by simp

text \<open>
  C4, amended: when the HTTP bucket holds only a field with key \<^verbatim>\<open>http.request.method\<close> and
  string value \<^verbatim>\<open>POST\<close>, the HTTP field of the output carries exactly the document
  \<^verbatim>\<open>{"request":{"body":{},"method":"POST"}}\<close>: no \<^verbatim>\<open>response\<close> key, since that node was never
  allocated, and an empty \<^verbatim>\<open>body\<close> object under \<^verbatim>\<open>request\<close>, since the guard allocates the body
  with the request. The store is left as it was.
\<close>

theorem C4_request_method_document:
  assumes "httpFieldsAccum a = [f]" and "Key f = FieldHTTPRequestMethod"
    and "String f = ''POST''"
  shows "snd (emitLogFields a blf st) ! 1 = zap_Reflect ''http'' (IRawMessage requestMethodDocument)
         \<and> fst (emitLogFields a blf st) = st"
  using assms
  by (simp add: emitLogFields_def http_defs key_defs requestMethodDocument_def Let_def)

theorem C4_request_method_document_witness:
  "httpFieldsAccum ((newFieldAccumulators 0 InfoLevel)
       \<lparr>httpFieldsAccum := [zap_String FieldHTTPRequestMethod ''POST'']\<rparr>)
     = [zap_String FieldHTTPRequestMethod ''POST'']
   \<and> Key (zap_String FieldHTTPRequestMethod ''POST'') = FieldHTTPRequestMethod
   \<and> String (zap_String FieldHTTPRequestMethod ''POST'') = ''POST''
   \<and> snd (emitLogFields ((newFieldAccumulators 0 InfoLevel)
              \<lparr>httpFieldsAccum := [zap_String FieldHTTPRequestMethod ''POST'']\<rparr>)
            (zap_String FieldLogger ''ecs'') emptyHeap) ! 1
       = zap_Reflect ''http'' (IRawMessage requestMethodDocument)"
proof -
  let ?f = "zap_String FieldHTTPRequestMethod ''POST''"
  let ?a = "(newFieldAccumulators 0 InfoLevel)\<lparr>httpFieldsAccum := [?f]\<rparr>"
  have h1: "httpFieldsAccum ?a = [?f]" by simp
  have h2: "Key ?f = FieldHTTPRequestMethod" by (simp add: zap_String_def)
  have h3: "String ?f = ''POST''" by (simp add: zap_String_def)
  show ?thesis
    using h1 h2 h3
      C4_request_method_document [OF h1 h2 h3, of "zap_String FieldLogger ''ecs''" emptyHeap]
    by simp
qed

subsection \<open>C5: fields with an unrecognized prefix\<close>

text \<open>
  C5, as the specification states it: a field with key \<^verbatim>\<open>custom.x\<close> lands in the labels bucket
  under its full key \<^verbatim>\<open>custom.x\<close>. The code does not do that: the labels branch of
  \<^verbatim>\<open>appendField\<close> applies \<^verbatim>\<open>reduceKey\<close> like the other branches, so the field is stored under
  the key \<^verbatim>\<open>x\<close>.
\<close>

theorem C5_full_key_counterexample:
  "map Key (labelsFieldsAccum
      (appendField (zap_String ''custom.x'' ''v'') (newFieldAccumulators 0 InfoLevel))) = [''x'']
   \<and> map Key (labelsFieldsAccum
      (appendField (zap_String ''custom.x'' ''v'') (newFieldAccumulators 0 InfoLevel)))
       \<noteq> [''custom.x'']"
  by (simp add: appendField_def reduceKey_def zap_String_def newFieldAccumulators_def
      HasPrefix_def LogPrefix_def HTTPPrefix_def EventPrefix_def ErrorPrefix_def TracePrefix_def)

text \<open>
  C5, amended: a field whose key starts with none of the five recognized prefixes is
  appended to the labels bucket with its key reduced to the substring after the final
  dot, and no other bucket changes.
\<close>

theorem C5_unrecognized_prefix_reduced:
  assumes "firstMatch (Key f) prefixTable = None"
  shows "labelsFieldsAccum (appendField f a) =
           labelsFieldsAccum a @ [withKey (afterFinalDot (Key f)) f]
         \<and> (\<forall>b'. b' \<noteq> LabelsBucket \<longrightarrow>
               bucketFields b' (appendField f a) = bucketFields b' a)"
proof -
  have np: "\<not> HasPrefix (Key f) LogPrefix" "\<not> HasPrefix (Key f) HTTPPrefix"
    "\<not> HasPrefix (Key f) EventPrefix" "\<not> HasPrefix (Key f) ErrorPrefix"
    "\<not> HasPrefix (Key f) TracePrefix"
    using assms by (auto simp: prefixTable_def split: if_splits)
  have other: "\<And>b'. b' \<noteq> LabelsBucket \<Longrightarrow>
                 bucketFields b' (appendField f a) = bucketFields b' a"
    subgoal for b' using np by (cases b') (simp_all add: appendField_def)
    done
  show ?thesis using np other by (simp add: appendField_def reduceKey_withKey)
qed

theorem C5_unrecognized_prefix_reduced_witness:
  "firstMatch (Key (zap_String ''custom.x'' ''v'')) prefixTable = None
   \<and> labelsFieldsAccum
        (appendField (zap_String ''custom.x'' ''v'') (newFieldAccumulators 0 InfoLevel))
       = [zap_String ''x'' ''v'']
   \<and> eventFieldsAccum
        (appendField (zap_String ''custom.x'' ''v'') (newFieldAccumulators 0 InfoLevel)) = []"
proof -
  have h: "firstMatch (Key (zap_String ''custom.x'' ''v'')) prefixTable = None"
    by (simp add: zap_String_def prefixTable_def HasPrefix_def LogPrefix_def HTTPPrefix_def
        EventPrefix_def ErrorPrefix_def TracePrefix_def)
  have k: "afterFinalDot ''custom.x'' = ''x''" by (simp add: afterFinalDot_def)
  note r = C5_unrecognized_prefix_reduced [OF h, of "newFieldAccumulators 0 InfoLevel"]
  have e: "labelsFieldsAccum
        (appendField (zap_String ''custom.x'' ''v'') (newFieldAccumulators 0 InfoLevel))
       = [zap_String ''x'' ''v'']"
    using conjunct1 [OF r] k by (simp add: newFieldAccumulators_def zap_String_def withKey_def)
  have o: "eventFieldsAccum
        (appendField (zap_String ''custom.x'' ''v'') (newFieldAccumulators 0 InfoLevel)) = []"
    using conjunct2 [OF r, rule_format, of EventBucket] by (simp add: newFieldAccumulators_def)
  show ?thesis using h e o by simp
qed

subsection \<open>C6: prefix routing\<close>

text \<open>
  C6: a field that survives deduplication and is not the tag field is handed to
  \<^verbatim>\<open>appendField\<close>; there its key is tested against the prefixes \<^verbatim>\<open>log.\<close>, \<^verbatim>\<open>http.\<close>, \<^verbatim>\<open>event.\<close>,
  \<^verbatim>\<open>error.\<close>, \<^verbatim>\<open>trace.\<close> in this order, and the first prefix that matches names the bucket
  the field is appended to: with its key reduced to the substring after the final dot,
  except in the HTTP bucket, where the field is stored as it is. No other bucket changes.
\<close>

theorem C6_prefix_routing:
  assumes "firstMatch (Key f) prefixTable = Some b"
  shows "bucketFields b (appendField f a) =
           bucketFields b a @ [if b = HTTPBucket then f else withKey (afterFinalDot (Key f)) f]
         \<and> (\<forall>b'. b' \<noteq> b \<longrightarrow> bucketFields b' (appendField f a) = bucketFields b' a)
         \<and> (Key f \<notin> P \<and> Key f \<noteq> FieldTags \<longrightarrow>
              classify (f # rest) (P, a, t) = classify rest (insert (Key f) P, appendField f a, t))"
proof -
  have other: "\<And>b'. b' \<noteq> b \<Longrightarrow> bucketFields b' (appendField f a) = bucketFields b' a"
    subgoal for b'
      using assms by (cases b') (auto simp: appendField_def prefixTable_def split: if_splits)
    done
  have own: "bucketFields b (appendField f a) =
           bucketFields b a @ [if b = HTTPBucket then f else withKey (afterFinalDot (Key f)) f]"
    using assms by (auto simp: appendField_def prefixTable_def reduceKey_withKey split: if_splits)
  have loop: "Key f \<notin> P \<and> Key f \<noteq> FieldTags \<longrightarrow>
      classify (f # rest) (P, a, t) = classify rest (insert (Key f) P, appendField f a, t)"
    by (simp add: Let_def)
  show ?thesis using own other loop by blast
qed

theorem C6_prefix_routing_witness:
  "firstMatch (Key (zap_String ''event.action'' ''go'')) prefixTable = Some EventBucket
   \<and> Key (zap_String ''event.action'' ''go'') \<notin> {}
   \<and> Key (zap_String ''event.action'' ''go'') \<noteq> FieldTags
   \<and> eventFieldsAccum
        (appendField (zap_String ''event.action'' ''go'') (newFieldAccumulators 0 InfoLevel))
       = [zap_String ''action'' ''go'']
   \<and> httpFieldsAccum
        (appendField (zap_String ''event.action'' ''go'') (newFieldAccumulators 0 InfoLevel)) = []
   \<and> classify [zap_String ''event.action'' ''go''] ({}, newFieldAccumulators 0 InfoLevel, [])
       = Inr ({''event.action''},
              appendField (zap_String ''event.action'' ''go'') (newFieldAccumulators 0 InfoLevel),
              [])"
proof -
  have h: "firstMatch (Key (zap_String ''event.action'' ''go'')) prefixTable = Some EventBucket"
    by (simp add: zap_String_def prefixTable_def HasPrefix_def LogPrefix_def HTTPPrefix_def
        EventPrefix_def)
  have n: "Key (zap_String ''event.action'' ''go'') \<notin> {}
           \<and> Key (zap_String ''event.action'' ''go'') \<noteq> FieldTags"
    by (simp add: zap_String_def FieldTags_def)
  have k: "afterFinalDot ''event.action'' = ''action''" by (simp add: afterFinalDot_def)
  note r = C6_prefix_routing [OF h, of "newFieldAccumulators 0 InfoLevel" "{}" "[]" "[]"]
  have e: "eventFieldsAccum
        (appendField (zap_String ''event.action'' ''go'') (newFieldAccumulators 0 InfoLevel))
       = [zap_String ''action'' ''go'']"
    using conjunct1 [OF r] k by (simp add: newFieldAccumulators_def zap_String_def withKey_def)
  have o: "httpFieldsAccum
        (appendField (zap_String ''event.action'' ''go'') (newFieldAccumulators 0 InfoLevel)) = []"
    using conjunct1 [OF conjunct2 [OF r], rule_format, of HTTPBucket]
    by (simp add: newFieldAccumulators_def)
  have c: "classify [zap_String ''event.action'' ''go''] ({}, newFieldAccumulators 0 InfoLevel, [])
       = Inr ({''event.action''},
              appendField (zap_String ''event.action'' ''go'') (newFieldAccumulators 0 InfoLevel),
              [])"
    using conjunct2 [OF conjunct2 [OF r], rule_format, OF n] by (simp add: zap_String_def)
  show ?thesis using h n e o c by simp
qed

subsection \<open>C7: a key logged twice\<close>



subsection \<open>C8: tag merging\<close>

text \<open>
  C8: when the first field of the call with key \<^verbatim>\<open>tags\<close> carries a string list, the call
  returns, and the tag field of its output holds the base tags, in their order, followed
  by the strings of that field, in their order, with nothing removed (so equal tags stay);
  the field is left out only when this list is empty. The base labels and the six bucket
  fields follow it. A call with no tag field returns with the base tags alone.
\<close>

theorem C8_tags_merged_in_order:
  "(FieldTags \<notin> Key ` set xs \<and> Key f = FieldTags \<and> Interface f = IStrings ts \<longrightarrow>
      (\<exists>st' emitted.
         encodeFields lg st (xs @ f # ys) lvl =
           Inr (st', (if baseTags lg @ ts = [] then []
                      else [zap_Strings ''tags'' (baseTags lg @ ts)])
                     @ baseLabels lg @ emitted)
         \<and> map Key emitted = [''log'', ''http'', ''event'', ''error'', ''trace'', ''labels'']))
   \<and> (FieldTags \<notin> Key ` set fs \<longrightarrow>
      (\<exists>st' emitted.
         encodeFields lg st fs lvl =
           Inr (st', (if baseTags lg = [] then [] else [zap_Strings ''tags'' (baseTags lg)])
                     @ baseLabels lg @ emitted)
         \<and> map Key emitted = [''log'', ''http'', ''event'', ''error'', ''trace'', ''labels'']))"
proof -
  let ?s0 = "({}, newFieldAccumulators (length (baseLabels lg)) lvl, baseTags lg)"
  have emit: "\<exists>st1 emitted. emitLogFields a (baseLoggerField lg) st = (st1, emitted)
      \<and> map Key emitted = [''log'', ''http'', ''event'', ''error'', ''trace'', ''labels'']" for a
    using emitLogFields_shape [of a "baseLoggerField lg" st]
    by (auto simp: zap_Object_def zap_Reflect_def)
  have merged: "\<exists>st' emitted.
         encodeFields lg st (xs @ f # ys) lvl =
           Inr (st', (if baseTags lg @ ts = [] then []
                      else [zap_Strings ''tags'' (baseTags lg @ ts)])
                     @ baseLabels lg @ emitted)
         \<and> map Key emitted = [''log'', ''http'', ''event'', ''error'', ''trace'', ''labels'']"
    if h: "FieldTags \<notin> Key ` set xs" "Key f = FieldTags" "Interface f = IStrings ts"
  proof -
    obtain a1 where c1: "classify xs ?s0 = Inr ({} \<union> Key ` set xs, a1, baseTags lg)"
      using classify_no_tags [of "{}" xs "newFieldAccumulators (length (baseLabels lg)) lvl"
          "baseTags lg"] h(1)
      by blast
    let ?P1 = "{} \<union> Key ` set xs"
    have c2: "classify (f # ys) (?P1, a1, baseTags lg) =
                classify ys (insert FieldTags ?P1, a1, baseTags lg @ ts)"
      using h by (simp add: IsECSFieldName_tags Let_def)
    obtain a3 where c3: "classify ys (insert FieldTags ?P1, a1, baseTags lg @ ts) =
        Inr (insert FieldTags ?P1 \<union> Key ` set ys, a3, baseTags lg @ ts)"
      using classify_no_tags [of "insert FieldTags ?P1" ys a1 "baseTags lg @ ts"] by blast
    have c: "classify (xs @ f # ys) ?s0 =
        Inr (insert FieldTags ?P1 \<union> Key ` set ys, a3, baseTags lg @ ts)"
      using c1 c2 c3 by (simp add: classify_append)
    obtain st1 emitted where e: "emitLogFields a3 (baseLoggerField lg) st = (st1, emitted)"
      and k: "map Key emitted = [''log'', ''http'', ''event'', ''error'', ''trace'', ''labels'']"
      using emit [of a3] by auto
    show ?thesis
      using c e k by (simp add: encodeFields_def Let_def FieldTags_def)
  qed
  have base: "\<exists>st' emitted.
         encodeFields lg st fs lvl =
           Inr (st', (if baseTags lg = [] then [] else [zap_Strings ''tags'' (baseTags lg)])
                     @ baseLabels lg @ emitted)
         \<and> map Key emitted = [''log'', ''http'', ''event'', ''error'', ''trace'', ''labels'']"
    if n: "FieldTags \<notin> Key ` set fs"
  proof -
    obtain a1 where c: "classify fs ?s0 = Inr ({} \<union> Key ` set fs, a1, baseTags lg)"
      using classify_no_tags [of "{}" fs "newFieldAccumulators (length (baseLabels lg)) lvl"
          "baseTags lg"] n
      by blast
    obtain st1 emitted where e: "emitLogFields a1 (baseLoggerField lg) st = (st1, emitted)"
      and k: "map Key emitted = [''log'', ''http'', ''event'', ''error'', ''trace'', ''labels'']"
      using emit [of a1] by auto
    show ?thesis
      using c e k by (simp add: encodeFields_def Let_def FieldTags_def)
  qed
  show ?thesis using merged base by blast
qed

text \<open>
  The example of the specification (base tags \<^verbatim>\<open>["prod"]\<close>, tag field \<^verbatim>\<open>["a","b"]\<close>), a tag
  field that repeats the base tag, and a call with no tag field.
\<close>

theorem C8_tags_merged_in_order_witness:
  "FieldTags \<notin> Key ` set [zap_String ''foo'' ''a'']
   \<and> Key (Tags [''a'', ''b'']) = FieldTags
   \<and> Interface (Tags [''a'', ''b'']) = IStrings [''a'', ''b'']
   \<and> (\<exists>st' emitted.
        encodeFields exampleLogger emptyHeap
          ([zap_String ''foo'' ''a''] @ Tags [''a'', ''b''] # []) InfoLevel =
          Inr (st', [zap_Strings ''tags'' [''prod'', ''a'', ''b'']]
                    @ [zap_String ''application'' ''app''] @ emitted)
        \<and> map Key emitted = [''log'', ''http'', ''event'', ''error'', ''trace'', ''labels''])
   \<and> Key (Tags [''prod'']) = FieldTags
   \<and> Interface (Tags [''prod'']) = IStrings [''prod'']
   \<and> (\<exists>st' emitted.
        encodeFields exampleLogger emptyHeap
          ([zap_String ''foo'' ''a''] @ Tags [''prod''] # []) InfoLevel =
          Inr (st', [zap_Strings ''tags'' [''prod'', ''prod'']]
                    @ [zap_String ''application'' ''app''] @ emitted)
        \<and> map Key emitted = [''log'', ''http'', ''event'', ''error'', ''trace'', ''labels''])
   \<and> (\<exists>st' emitted.
        encodeFields exampleLogger emptyHeap [zap_String ''foo'' ''a''] InfoLevel =
          Inr (st', [zap_Strings ''tags'' [''prod'']]
                    @ [zap_String ''application'' ''app''] @ emitted)
        \<and> map Key emitted = [''log'', ''http'', ''event'', ''error'', ''trace'', ''labels''])"
proof -
  let ?xs = "[zap_String ''foo'' ''a'']"
  have h1: "FieldTags \<notin> Key ` set ?xs"
    by (simp add: FieldTags_def zap_String_def)
  have h2: "Key (Tags [''a'', ''b'']) = FieldTags" by (simp add: Tags_def)
  have h3: "Interface (Tags [''a'', ''b'']) = IStrings [''a'', ''b'']" by (simp add: Tags_def)
  have g2: "Key (Tags [''prod'']) = FieldTags" by (simp add: Tags_def)
  have g3: "Interface (Tags [''prod'']) = IStrings [''prod'']" by (simp add: Tags_def)
  have bt: "baseTags exampleLogger = [''prod'']"
    and bl: "baseLabels exampleLogger = [zap_String ''application'' ''app'']"
    by (simp_all add: exampleLogger_def)
  note t1 = C8_tags_merged_in_order [of ?xs "Tags [''a'', ''b'']" "[''a'', ''b'']" exampleLogger emptyHeap "[]"
      InfoLevel ?xs]
  note t2 = C8_tags_merged_in_order [of ?xs "Tags [''prod'']" "[''prod'']" exampleLogger emptyHeap "[]"
      InfoLevel ?xs]
  have r1: "\<exists>st' emitted.
        encodeFields exampleLogger emptyHeap (?xs @ Tags [''a'', ''b''] # []) InfoLevel =
          Inr (st', [zap_Strings ''tags'' [''prod'', ''a'', ''b'']]
                    @ [zap_String ''application'' ''app''] @ emitted)
        \<and> map Key emitted = [''log'', ''http'', ''event'', ''error'', ''trace'', ''labels'']"
    using conjunct1 [OF t1, rule_format, OF conjI [OF h1 conjI [OF h2 h3]]]
    by (simp add: bt bl)
  have r2: "\<exists>st' emitted.
        encodeFields exampleLogger emptyHeap (?xs @ Tags [''prod''] # []) InfoLevel =
          Inr (st', [zap_Strings ''tags'' [''prod'', ''prod'']]
                    @ [zap_String ''application'' ''app''] @ emitted)
        \<and> map Key emitted = [''log'', ''http'', ''event'', ''error'', ''trace'', ''labels'']"
    using conjunct1 [OF t2, rule_format, OF conjI [OF h1 conjI [OF g2 g3]]]
    by (simp add: bt bl)
  have r3: "\<exists>st' emitted.
        encodeFields exampleLogger emptyHeap ?xs InfoLevel =
          Inr (st', [zap_Strings ''tags'' [''prod'']]
                    @ [zap_String ''application'' ''app''] @ emitted)
        \<and> map Key emitted = [''log'', ''http'', ''event'', ''error'', ''trace'', ''labels'']"
    using conjunct2 [OF t1, rule_format, OF h1]
    by (simp add: bt bl)
  show ?thesis using h1 h2 h3 g2 g3 r1 r2 r3 by blast
qed

subsection \<open>C9: header redaction\<close>



subsection \<open>C10: sanitization writes into the caller's header maps\<close>



end
